theory Spec2Isabelle
  imports Main
begin

section \<open>The signalling link: \<open>WebSocketManager\<close> (frontend/src/lib/websocket.ts)\<close>

subsection \<open>Browser objects\<close>

text \<open>
  A browser \<open>WebSocket\<close> is an object the code holds by reference. Its \<open>readyState\<close>
  is maintained by the browser; \<open>frames\<close> lists what \<open>send\<close> has put on the wire and
  \<open>closeCalls\<close> the arguments of every \<open>close\<close> call (\<open>None\<close> for a call without
  arguments).
\<close>

datatype ready_state = CONNECTING | OPEN | CLOSING | CLOSED

record 'f web_socket =
  url :: string
  readyState :: ready_state
  frames :: "'f list"
  closeCalls :: "(nat \<times> string) option list"

definition new_WebSocket :: "string \<Rightarrow> 'f web_socket" where
  "new_WebSocket u = \<lparr>url = u, readyState = CONNECTING, frames = [], closeCalls = []\<rparr>"

definition socket_close :: "(nat \<times> string) option \<Rightarrow> 'f web_socket \<Rightarrow> 'f web_socket" where
  "socket_close args sock =
     sock\<lparr>closeCalls := closeCalls sock @ [args],
          readyState := (if readyState sock = CLOSED then CLOSED else CLOSING)\<rparr>"

definition socket_send :: "'f \<Rightarrow> 'f web_socket \<Rightarrow> 'f web_socket" where
  "socket_send frame sock = sock\<lparr>frames := frames sock @ [frame]\<rparr>"

text \<open>\<open>WebSocketMessage\<close>: a type tag and an opaque payload.\<close>

record ws_message =
  mtype :: string
  mdata :: string

text \<open>
  Callbacks are compared by reference in the source (\<open>indexOf\<close>), so a handler or a
  listener is represented by its identity, a number. What the callback's body does is
  application code: the environment says, for each handler and message, whether the call
  throws. \<open>JSON.stringify\<close> and \<open>JSON.parse\<close> belong to the environment as well; \<open>None\<close>
  is a thrown exception.
\<close>

record ws_env =
  stringify :: "ws_message \<Rightarrow> string option"
  parse :: "string \<Rightarrow> ws_message option"
  handlerThrows :: "nat \<Rightarrow> ws_message \<Rightarrow> bool"

datatype timer = ConnectTimeout nat | ReconnectTimer nat

subsection \<open>The manager's state\<close>

text \<open>
  The private fields of the class, followed by the parts of the world it acts on: the
  socket objects it has created (\<open>sockets\<close>, allocated at \<open>nextSocket\<close>), every
  \<open>setTimeout\<close> call it has made (\<open>timers\<close>), and the calls it has made to connection
  listeners (\<open>notified\<close>) and to event handlers (\<open>invoked\<close>; \<open>handlerErrors\<close> are the
  handlers whose exception was caught and logged). Console output is not modelled.
\<close>

record ws_manager =
  ws :: "nat option"
  eventHandlers :: "string \<Rightarrow> nat list option"
  reconnectAttempts :: nat
  maxReconnectAttempts :: nat
  reconnectDelay :: nat
  isConnecting :: bool
  deviceId :: "string option"
  connectionListeners :: "nat list"
  sockets :: "nat \<Rightarrow> string web_socket"
  nextSocket :: nat
  timers :: "timer list"
  notified :: "(nat \<times> bool) list"
  invoked :: "(nat \<times> ws_message) list"
  handlerErrors :: "nat list"

definition WebSocketManager :: ws_manager where
  "WebSocketManager =
     \<lparr>ws = None, eventHandlers = Map.empty, reconnectAttempts = 0,
      maxReconnectAttempts = 5, reconnectDelay = 1000, isConnecting = False,
      deviceId = None, connectionListeners = [],
      sockets = (\<lambda>_. new_WebSocket []), nextSocket = 0, timers = [],
      notified = [], invoked = [], handlerErrors = []\<rparr>"

subsection \<open>Operations\<close>

definition isConnected :: "ws_manager \<Rightarrow> bool" where
  "isConnected s =
     (case ws s of None \<Rightarrow> False | Some i \<Rightarrow> readyState (sockets s i) = OPEN)"

text \<open>Every listener is called inside its own \<open>try\<close>/\<open>catch\<close>.\<close>

definition notifyConnectionListeners :: "bool \<Rightarrow> ws_manager \<Rightarrow> ws_manager" where
  "notifyConnectionListeners connected s =
     s\<lparr>notified := notified s @ map (\<lambda>l. (l, connected)) (connectionListeners s)\<rparr>"

definition wsUrl :: "string \<Rightarrow> string \<Rightarrow> string" where
  "wsUrl dev token = ''ws://localhost:8000'' @ ''/api/v1/chat/ws/'' @ dev @ ''?token='' @ token"

text \<open>
  \<open>connect\<close> returns a promise: already settled with a boolean, or pending until the
  socket's \<open>onopen\<close>, \<open>onerror\<close> or the ten-second timeout settles it. The token is what
  \<open>tokenManager.getValidToken()\<close> returns at the call; \<open>!token\<close> holds for \<open>null\<close> and for
  the empty string.
\<close>

datatype connect_result = Resolved bool | Pending

definition connect :: "string option \<Rightarrow> string \<Rightarrow> ws_manager \<Rightarrow> connect_result \<times> ws_manager" where
  "connect token dev s =
     (if isConnecting s \<or> isConnected s then (Resolved True, s)
      else
        let s1 = s\<lparr>isConnecting := True, deviceId := Some dev\<rparr> in
        (case token of
           None \<Rightarrow> (Resolved False, s1\<lparr>isConnecting := False\<rparr>)
         | Some t \<Rightarrow>
             if t = [] then (Resolved False, s1\<lparr>isConnecting := False\<rparr>)
             else
               let i = nextSocket s1 in
               (Pending,
                s1\<lparr>ws := Some i,
                   sockets := (sockets s1)(i := new_WebSocket (wsUrl dev t)),
                   nextSocket := Suc i,
                   timers := timers s1 @ [ConnectTimeout 10000]\<rparr>)))"

definition onopen :: "ws_manager \<Rightarrow> ws_manager" where
  "onopen s =
     notifyConnectionListeners True
       (s\<lparr>isConnecting := False, reconnectAttempts := 0, reconnectDelay := 1000\<rparr>)"

definition scheduleReconnect :: "ws_manager \<Rightarrow> ws_manager" where
  "scheduleReconnect s =
     (if reconnectAttempts s \<ge> maxReconnectAttempts s then s
      else
        let s1 = s\<lparr>reconnectAttempts := reconnectAttempts s + 1\<rparr>;
            delay = min (reconnectDelay s1 * 2 ^ (reconnectAttempts s1 - 1)) 30000
        in s1\<lparr>timers := timers s1 @ [ReconnectTimer delay]\<rparr>)"

definition onclose :: "nat \<Rightarrow> ws_manager \<Rightarrow> ws_manager" where
  "onclose code s =
     (let s1 = notifyConnectionListeners False (s\<lparr>isConnecting := False\<rparr>) in
      if code \<noteq> 4001 \<and> reconnectAttempts s1 < maxReconnectAttempts s1
      then scheduleReconnect s1 else s1)"

definition onerror :: "ws_manager \<Rightarrow> ws_manager" where
  "onerror s = s\<lparr>isConnecting := False\<rparr>"

definition connectTimeout :: "ws_manager \<Rightarrow> ws_manager" where
  "connectTimeout s = (if isConnecting s then s\<lparr>isConnecting := False\<rparr> else s)"

text \<open>The callback of the timer set by \<open>scheduleReconnect\<close>; an empty \<open>deviceId\<close> is falsy.\<close>

definition reconnectTimer :: "string option \<Rightarrow> ws_manager \<Rightarrow> ws_manager" where
  "reconnectTimer token s =
     (case deviceId s of
        None \<Rightarrow> s
      | Some dev \<Rightarrow> if dev \<noteq> [] \<and> \<not> isConnected s then snd (connect token dev s) else s)"

definition disconnect :: "ws_manager \<Rightarrow> ws_manager" where
  "disconnect s =
     (let s1 = (case ws s of
                  None \<Rightarrow> s
                | Some i \<Rightarrow>
                    s\<lparr>sockets := (sockets s)(i := socket_close (Some (1000, ''User disconnected'')) (sockets s i)),
                      ws := None\<rparr>)
      in notifyConnectionListeners False (s1\<lparr>reconnectAttempts := maxReconnectAttempts s1\<rparr>))"

text \<open>
  \<open>send\<close>: the \<open>catch\<close> branch is taken when \<open>JSON.stringify\<close> throws (and would be taken
  for a null \<open>ws\<close>, which \<open>isConnected\<close> excludes).
\<close>

definition send :: "ws_env \<Rightarrow> ws_message \<Rightarrow> ws_manager \<Rightarrow> bool \<times> ws_manager" where
  "send env message s =
     (if \<not> isConnected s then (False, s)
      else
        (case stringify env message of
           None \<Rightarrow> (False, s)
         | Some txt \<Rightarrow>
             (case ws s of
                None \<Rightarrow> (False, s)
              | Some i \<Rightarrow> (True, s\<lparr>sockets := (sockets s)(i := socket_send txt (sockets s i))\<rparr>))))"

definition addEventListener :: "string \<Rightarrow> nat \<Rightarrow> ws_manager \<Rightarrow> ws_manager" where
  "addEventListener eventType handler s =
     (let hs = (case eventHandlers s eventType of None \<Rightarrow> [] | Some hs \<Rightarrow> hs)
      in s\<lparr>eventHandlers := (eventHandlers s)(eventType \<mapsto> hs @ [handler])\<rparr>)"

text \<open>\<open>indexOf\<close> followed by \<open>splice(index, 1)\<close> removes the first occurrence.\<close>

definition removeEventListener :: "string \<Rightarrow> nat \<Rightarrow> ws_manager \<Rightarrow> ws_manager" where
  "removeEventListener eventType handler s =
     (case eventHandlers s eventType of
        None \<Rightarrow> s
      | Some hs \<Rightarrow> s\<lparr>eventHandlers := (eventHandlers s)(eventType \<mapsto> remove1 handler hs)\<rparr>)"

definition addConnectionListener :: "nat \<Rightarrow> ws_manager \<Rightarrow> ws_manager" where
  "addConnectionListener listener s =
     s\<lparr>connectionListeners := connectionListeners s @ [listener]\<rparr>"

definition removeConnectionListener :: "nat \<Rightarrow> ws_manager \<Rightarrow> ws_manager" where
  "removeConnectionListener listener s =
     s\<lparr>connectionListeners := remove1 listener (connectionListeners s)\<rparr>"

text \<open>
  The \<open>forEach\<close> of \<open>handleMessage\<close>: each handler is called inside its own
  \<open>try\<close>/\<open>catch\<close>; a caught exception is logged and the loop goes on.
\<close>

fun forEach_handler :: "ws_env \<Rightarrow> ws_message \<Rightarrow> nat list \<Rightarrow> ws_manager \<Rightarrow> ws_manager" where
  "forEach_handler env message [] s = s"
| "forEach_handler env message (h # hs) s =
     (let s1 = s\<lparr>invoked := invoked s @ [(h, message)]\<rparr> in
      if handlerThrows env h message
      then forEach_handler env message hs (s1\<lparr>handlerErrors := handlerErrors s1 @ [h]\<rparr>)
      else forEach_handler env message hs s1)"

definition handleMessage :: "ws_env \<Rightarrow> string \<Rightarrow> ws_manager \<Rightarrow> ws_manager" where
  "handleMessage env data s =
     (case parse env data of
        None \<Rightarrow> s
      | Some message \<Rightarrow>
          (case eventHandlers s (mtype message) of
             None \<Rightarrow> s
           | Some handlers \<Rightarrow> forEach_handler env message handlers s))"

subsection \<open>Runs of the manager\<close>

text \<open>
  Everything that can happen to the manager: a call of one of its public methods, an
  event the browser fires on one of the sockets it has created (the browser has set that
  socket's \<open>readyState\<close> before the handler runs), or one of its timers firing. Timers may
  fire at any moment after they are set.
\<close>

datatype ws_event =
    Connect "string option" string
  | Disconnect
  | Send ws_message
  | AddEventListener string nat
  | RemoveEventListener string nat
  | AddConnectionListener nat
  | RemoveConnectionListener nat
  | OnOpen nat
  | OnMessage nat string
  | OnClose nat nat
  | OnError nat
  | ConnectTimeoutFires
  | ReconnectTimerFires "string option"

definition set_readyState :: "nat \<Rightarrow> ready_state \<Rightarrow> ws_manager \<Rightarrow> ws_manager" where
  "set_readyState i r s = s\<lparr>sockets := (sockets s)(i := (sockets s i)\<lparr>readyState := r\<rparr>)\<rparr>"

fun step :: "ws_env \<Rightarrow> ws_event \<Rightarrow> ws_manager \<Rightarrow> ws_manager" where
  "step env (Connect token dev) s = snd (connect token dev s)"
| "step env Disconnect s = disconnect s"
| "step env (Send m) s = snd (send env m s)"
| "step env (AddEventListener t h) s = addEventListener t h s"
| "step env (RemoveEventListener t h) s = removeEventListener t h s"
| "step env (AddConnectionListener l) s = addConnectionListener l s"
| "step env (RemoveConnectionListener l) s = removeConnectionListener l s"
| "step env (OnOpen i) s = (if i < nextSocket s then onopen (set_readyState i OPEN s) else s)"
| "step env (OnMessage i d) s = (if i < nextSocket s then handleMessage env d s else s)"
| "step env (OnClose i code) s =
     (if i < nextSocket s then onclose code (set_readyState i CLOSED s) else s)"
| "step env (OnError i) s = (if i < nextSocket s then onerror s else s)"
| "step env ConnectTimeoutFires s = connectTimeout s"
| "step env (ReconnectTimerFires token) s = reconnectTimer token s"

fun run :: "ws_env \<Rightarrow> ws_event list \<Rightarrow> ws_manager \<Rightarrow> ws_manager" where
  "run env [] s = s"
| "run env (e # es) s = run env es (step env e s)"

text \<open>The delays of the reconnect timers among the \<open>setTimeout\<close> calls made so far.\<close>

fun reconnect_delays :: "timer list \<Rightarrow> nat list" where
  "reconnect_delays [] = []"
| "reconnect_delays (ReconnectTimer d # ts) = d # reconnect_delays ts"
| "reconnect_delays (ConnectTimeout d # ts) = reconnect_delays ts"

fun is_open :: "ws_event \<Rightarrow> bool" where
  "is_open (OnOpen i) = True"
| "is_open e = False"

fun is_disconnect :: "ws_event \<Rightarrow> bool" where
  "is_disconnect Disconnect = True"
| "is_disconnect e = False"

section \<open>The call service: \<open>WebRTCService\<close>\<close>

subsection \<open>Browser objects and messages\<close>

text \<open>
  Media tracks and peer connections are browser objects held by reference; the service
  and the call state may both point at the same one. Each lives in a store, indexed by
  its address. A \<open>MediaStream\<close> is the list of its tracks. For a peer connection the
  model records every method the code calls on it, in order; the promises these methods
  return are taken to resolve.
\<close>

datatype track_kind = AudioTrack | VideoTrack

record media_track =
  kind :: track_kind
  enabled :: bool
  stopped :: bool

datatype call_type = Audio | Video

datatype sdp_type = Offer | Answer

datatype ice_candidate = IceCandidate string

datatype pc_call =
    AddTrack nat
  | SetRemoteDescription sdp_type string
  | CreateAnswer
  | SetLocalDescription "string option"
  | AddIceCandidate ice_candidate
  | Close

record rtc_peer_connection =
  calls :: "pc_call list"
  closed :: bool

text \<open>\<open>SignalingMessage\<close>; every field but \<open>type\<close> is optional.\<close>

record signaling_message =
  sm_type :: string
  user_id :: "string option"
  sdp :: "string option"
  candidate :: "ice_candidate option"
  muted :: "bool option"
  video_enabled :: "bool option"

definition signal :: "string \<Rightarrow> string \<Rightarrow> signaling_message" where
  "signal t u = \<lparr>sm_type = t, user_id = Some u, sdp = None, candidate = None,
                 muted = None, video_enabled = None\<rparr>"

text \<open>
  \<open>CallParticipant\<close> and \<open>CallState\<close>. The participant's optional flags are named
  \<open>p_isMuted\<close> and \<open>p_isVideoEnabled\<close>, and the call state's stream \<open>cs_localStream\<close>,
  to keep them apart from the fields of the same name elsewhere. A remote stream is an
  opaque handle.
\<close>

record call_participant =
  userId :: string
  stream :: "nat option"
  peerConnection :: "nat option"
  p_isMuted :: "bool option"
  p_isVideoEnabled :: "bool option"

record call_state =
  callId :: "string option"
  isActive :: bool
  isIncoming :: bool
  participants :: "call_participant list"
  cs_localStream :: "nat list option"
  callType :: call_type
  isMuted :: bool
  isVideoEnabled :: bool

datatype rest_call = InitiateCall "string list" call_type | JoinCall string | EndCall string

datatype rtc_error = MediaError | ApiError | SignalingError

text \<open>
  The private fields of the class (\<open>rtc_ws\<close> is the field \<open>ws\<close>; the peer-connection
  \<open>Map\<close> is an association list in insertion order), then the world: the object stores
  and the requests made to the REST collaborator. The optional \<open>onStateChange\<close>
  callback and console output are not modelled.
\<close>

record webrtc_service =
  rtc_ws :: "nat option"
  signalingSocket :: "nat option"
  localStream :: "nat list option"
  peerConnections :: "(string \<times> nat) list"
  callState :: call_state
  rtcSockets :: "nat \<Rightarrow> signaling_message web_socket"
  nextRtcSocket :: nat
  tracks :: "nat \<Rightarrow> media_track"
  nextTrack :: nat
  pcs :: "nat \<Rightarrow> rtc_peer_connection"
  nextPc :: nat
  restCalls :: "rest_call list"

definition WebRTCService :: webrtc_service where
  "WebRTCService =
     \<lparr>rtc_ws = None, signalingSocket = None, localStream = None, peerConnections = [],
      callState = \<lparr>callId = None, isActive = False, isIncoming = False, participants = [],
                   cs_localStream = None, callType = Audio, isMuted = False,
                   isVideoEnabled = False\<rparr>,
      rtcSockets = (\<lambda>_. new_WebSocket []), nextRtcSocket = 0,
      tracks = (\<lambda>_. \<lparr>kind = AudioTrack, enabled = False, stopped = True\<rparr>), nextTrack = 0,
      pcs = (\<lambda>_. \<lparr>calls = [], closed = True\<rparr>), nextPc = 0,
      restCalls = []\<rparr>"

subsection \<open>Operations\<close>

text \<open>
  The \<open>async\<close> methods run here from call to return, with what each awaited
  collaborator answers given as an argument: whether the user grants the media devices,
  what the REST call returns, whether the signalling socket opens.
\<close>

definition updateState :: "(call_state \<Rightarrow> call_state) \<Rightarrow> webrtc_service \<Rightarrow> webrtc_service" where
  "updateState updates s = s\<lparr>callState := updates (callState s)\<rparr>"

text \<open>\<open>(tokenPayload?.sub as string) || "current_user"\<close>\<close>

definition currentUserId :: "string option \<Rightarrow> string" where
  "currentUserId sub = (case sub of None \<Rightarrow> ''current_user''
                        | Some u \<Rightarrow> if u = [] then ''current_user'' else u)"

definition sendSignalingMessage :: "signaling_message \<Rightarrow> webrtc_service \<Rightarrow> webrtc_service" where
  "sendSignalingMessage message s =
     (case rtc_ws s of
        None \<Rightarrow> s
      | Some i \<Rightarrow>
          if readyState (rtcSockets s i) = OPEN
          then s\<lparr>rtcSockets := (rtcSockets s)(i := socket_send message (rtcSockets s i))\<rparr>
          else s)"

text \<open>
  \<open>getUserMedia\<close>, when granted, hands over a fresh stream: one live audio track and,
  if video was asked for, one live video track.
\<close>

definition getUserMedia :: "bool \<Rightarrow> webrtc_service \<Rightarrow> nat list \<times> webrtc_service" where
  "getUserMedia includeVideo s =
     (let a = nextTrack s;
          s1 = s\<lparr>tracks := (tracks s)(a := \<lparr>kind = AudioTrack, enabled = True, stopped = False\<rparr>),
                 nextTrack := Suc a\<rparr>
      in if includeVideo
         then ([a, Suc a],
               s1\<lparr>tracks := (tracks s1)(Suc a := \<lparr>kind = VideoTrack, enabled = True, stopped = False\<rparr>),
                  nextTrack := Suc (Suc a)\<rparr>)
         else ([a], s1))"

definition getLocalStream :: "bool \<Rightarrow> bool \<Rightarrow> webrtc_service \<Rightarrow> (rtc_error + unit) \<times> webrtc_service" where
  "getLocalStream granted includeVideo s =
     (if \<not> granted then (Inl MediaError, s)
      else
        let (st, s1) = getUserMedia includeVideo s;
            s2 = s1\<lparr>localStream := Some st\<rparr>
        in (Inr (), updateState (\<lambda>c. c\<lparr>cs_localStream := localStream s2\<rparr>) s2))"

definition signalingUrl :: "string \<Rightarrow> string" where
  "signalingUrl cid = ''ws://localhost:4000/api/v1'' @ ''/calls/'' @ cid @ ''/signaling''"

text \<open>
  \<open>connectSignaling\<close> resolves when the new socket opens and rejects when it reports an
  error first.
\<close>

definition connectSignaling :: "bool \<Rightarrow> string \<Rightarrow> webrtc_service \<Rightarrow> (rtc_error + unit) \<times> webrtc_service" where
  "connectSignaling opens cid s =
     (let i = nextRtcSocket s;
          s1 = s\<lparr>rtcSockets := (rtcSockets s)(i := new_WebSocket (signalingUrl cid)),
                 nextRtcSocket := Suc i, signalingSocket := Some i\<rparr>
      in if opens
         then (Inr (), s1\<lparr>rtcSockets := (rtcSockets s1)(i := (rtcSockets s1 i)\<lparr>readyState := OPEN\<rparr>)\<rparr>)
         else (Inl SignalingError, s1))"

definition initiateCall ::
  "bool \<Rightarrow> string option \<Rightarrow> bool \<Rightarrow> string list \<Rightarrow> call_type \<Rightarrow> webrtc_service
     \<Rightarrow> (rtc_error + string) \<times> webrtc_service" where
  "initiateCall granted response opens ps ct s =
     (case getLocalStream granted (ct = Video) s of
        (Inl e, s1) \<Rightarrow> (Inl e, s1)
      | (Inr u, s1) \<Rightarrow>
          let s2 = s1\<lparr>restCalls := restCalls s1 @ [InitiateCall ps ct]\<rparr> in
          (case response of
             None \<Rightarrow> (Inl ApiError, s2)
           | Some call_id \<Rightarrow>
               let s3 = updateState
                          (\<lambda>c. c\<lparr>callId := Some call_id, isActive := True, isIncoming := False,
                                 callType := ct, isVideoEnabled := (ct = Video)\<rparr>) s2
               in (case connectSignaling opens call_id s3 of
                     (Inl e, s4) \<Rightarrow> (Inl e, s4)
                   | (Inr u, s4) \<Rightarrow> (Inr call_id, s4))))"

definition joinCall ::
  "bool \<Rightarrow> bool \<Rightarrow> bool \<Rightarrow> string \<Rightarrow> webrtc_service \<Rightarrow> (rtc_error + unit) \<times> webrtc_service" where
  "joinCall api_ok granted opens cid s =
     (let s1 = s\<lparr>restCalls := restCalls s @ [JoinCall cid]\<rparr> in
      if \<not> api_ok then (Inl ApiError, s1)
      else
        (case getLocalStream granted (callType (callState s1) = Video) s1 of
           (Inl e, s2) \<Rightarrow> (Inl e, s2)
         | (Inr u, s2) \<Rightarrow>
             connectSignaling opens cid
               (updateState (\<lambda>c. c\<lparr>callId := Some cid, isActive := True, isIncoming := False\<rparr>) s2)))"

definition stop_track :: "nat \<Rightarrow> webrtc_service \<Rightarrow> webrtc_service" where
  "stop_track t s = s\<lparr>tracks := (tracks s)(t := (tracks s t)\<lparr>stopped := True\<rparr>)\<rparr>"

definition pc_call :: "nat \<Rightarrow> pc_call \<Rightarrow> webrtc_service \<Rightarrow> webrtc_service" where
  "pc_call p c s = s\<lparr>pcs := (pcs s)(p := (pcs s p)\<lparr>calls := calls (pcs s p) @ [c]\<rparr>)\<rparr>"

definition close_pc :: "nat \<Rightarrow> webrtc_service \<Rightarrow> webrtc_service" where
  "close_pc p s = (let s1 = pc_call p Close s in s1\<lparr>pcs := (pcs s1)(p := (pcs s1 p)\<lparr>closed := True\<rparr>)\<rparr>)"

definition cleanup :: "webrtc_service \<Rightarrow> webrtc_service" where
  "cleanup s =
     (let s1 = (case localStream s of
                  None \<Rightarrow> s
                | Some st \<Rightarrow> (fold stop_track st s)\<lparr>localStream := None\<rparr>);
          s2 = (fold close_pc (map snd (peerConnections s1)) s1)\<lparr>peerConnections := []\<rparr>
      in (case rtc_ws s2 of
            None \<Rightarrow> s2
          | Some i \<Rightarrow> s2\<lparr>rtcSockets := (rtcSockets s2)(i := socket_close None (rtcSockets s2 i)),
                        rtc_ws := None\<rparr>))"

text \<open>
  \<open>endCall\<close>: the REST request is made only for a truthy \<open>callId\<close>; when it fails the
  \<open>catch\<close> branch runs \<open>cleanup\<close> alone.
\<close>

definition endCall :: "bool \<Rightarrow> webrtc_service \<Rightarrow> webrtc_service" where
  "endCall api_ok s =
     (let ended = (\<lambda>s. updateState (\<lambda>c. c\<lparr>isActive := False, isIncoming := False, participants := []\<rparr>)
                        (cleanup s))
      in (case callId (callState s) of
            None \<Rightarrow> ended s
          | Some cid \<Rightarrow>
              if cid = [] then ended s
              else
                let s1 = s\<lparr>restCalls := restCalls s @ [EndCall cid]\<rparr> in
                if api_ok then ended s1 else cleanup s1))"

definition acceptIncomingCall ::
  "bool \<Rightarrow> bool \<Rightarrow> bool \<Rightarrow> string \<Rightarrow> call_type \<Rightarrow> webrtc_service
     \<Rightarrow> (rtc_error + unit) \<times> webrtc_service" where
  "acceptIncomingCall api_ok granted opens cid ct s =
     joinCall api_ok granted opens cid
       (updateState (\<lambda>c. c\<lparr>callType := ct, isVideoEnabled := (ct = Video)\<rparr>) s)"

definition declineIncomingCall :: "bool \<Rightarrow> string \<Rightarrow> webrtc_service \<Rightarrow> webrtc_service" where
  "declineIncomingCall api_ok cid s =
     (let s1 = s\<lparr>restCalls := restCalls s @ [EndCall cid]\<rparr> in
      if api_ok then updateState (\<lambda>c. c\<lparr>isActive := False, isIncoming := False\<rparr>) s1 else s1)"

text \<open>\<open>getAudioTracks()[0]\<close> and \<open>getVideoTracks()[0]\<close>: the first track of the kind, if any.\<close>

definition first_track :: "track_kind \<Rightarrow> nat list \<Rightarrow> webrtc_service \<Rightarrow> nat option" where
  "first_track k st s = (case filter (\<lambda>t. kind (tracks s t) = k) st of [] \<Rightarrow> None | t # ts \<Rightarrow> Some t)"

definition toggleMute :: "string option \<Rightarrow> webrtc_service \<Rightarrow> webrtc_service" where
  "toggleMute sub s =
     (case localStream s of
        None \<Rightarrow> s
      | Some st \<Rightarrow>
          (case first_track AudioTrack st s of
             None \<Rightarrow> s
           | Some a \<Rightarrow>
               let s1 = s\<lparr>tracks := (tracks s)(a := (tracks s a)\<lparr>enabled := \<not> enabled (tracks s a)\<rparr>)\<rparr>;
                   isMuted = \<not> enabled (tracks s1 a);
                   s2 = updateState (\<lambda>c. c\<lparr>isMuted := isMuted\<rparr>) s1
               in sendSignalingMessage ((signal ''mute'' (currentUserId sub))\<lparr>muted := Some isMuted\<rparr>) s2))"

definition toggleVideo :: "string option \<Rightarrow> webrtc_service \<Rightarrow> webrtc_service" where
  "toggleVideo sub s =
     (case localStream s of
        None \<Rightarrow> s
      | Some st \<Rightarrow>
          (case first_track VideoTrack st s of
             None \<Rightarrow> s
           | Some v \<Rightarrow>
               let s1 = s\<lparr>tracks := (tracks s)(v := (tracks s v)\<lparr>enabled := \<not> enabled (tracks s v)\<rparr>)\<rparr>;
                   isVideoEnabled = enabled (tracks s1 v);
                   s2 = updateState (\<lambda>c. c\<lparr>isVideoEnabled := isVideoEnabled\<rparr>) s1
               in sendSignalingMessage
                    ((signal ''video_toggle'' (currentUserId sub))\<lparr>video_enabled := Some isVideoEnabled\<rparr>) s2))"

text \<open>
  \<open>getOrCreatePeerConnection\<close>: a new connection is entered in the map and receives the
  local tracks.
\<close>

definition getOrCreatePeerConnection :: "string \<Rightarrow> webrtc_service \<Rightarrow> nat \<times> webrtc_service" where
  "getOrCreatePeerConnection u s =
     (case map_of (peerConnections s) u of
        Some p \<Rightarrow> (p, s)
      | None \<Rightarrow>
          let p = nextPc s;
              s1 = s\<lparr>pcs := (pcs s)(p := \<lparr>calls = [], closed = False\<rparr>), nextPc := Suc p,
                     peerConnections := peerConnections s @ [(u, p)]\<rparr>
          in (p, (case localStream s1 of
                    None \<Rightarrow> s1
                  | Some st \<Rightarrow> fold (\<lambda>t. pc_call p (AddTrack t)) st s1)))"

text \<open>The handlers installed on a new peer connection for user \<open>u\<close>.\<close>

definition ontrack :: "string \<Rightarrow> nat \<Rightarrow> nat \<Rightarrow> webrtc_service \<Rightarrow> webrtc_service" where
  "ontrack u p remoteStream s =
     (let ps = map (\<lambda>q. if userId q = u then q\<lparr>stream := Some remoteStream\<rparr> else q)
                 (participants (callState s));
          ps' = (if find (\<lambda>q. userId q = u) ps = None
                 then ps @ [\<lparr>userId = u, stream = Some remoteStream, peerConnection = Some p,
                              p_isMuted = None, p_isVideoEnabled = None\<rparr>]
                 else ps)
      in updateState (\<lambda>c. c\<lparr>participants := ps'\<rparr>) s)"

definition onicecandidate :: "string option \<Rightarrow> ice_candidate option \<Rightarrow> webrtc_service \<Rightarrow> webrtc_service" where
  "onicecandidate sub cand s =
     (case cand of
        None \<Rightarrow> s
      | Some c \<Rightarrow>
          sendSignalingMessage ((signal ''ice-candidate'' (currentUserId sub))\<lparr>candidate := Some c\<rparr>) s)"

text \<open>
  The signalling handlers. \<open>answerSdp\<close> is the \<open>sdp\<close> of the description that
  \<open>createAnswer\<close> produces.
\<close>

definition handleOffer :: "string option \<Rightarrow> string option \<Rightarrow> string \<Rightarrow> string \<Rightarrow> webrtc_service \<Rightarrow> webrtc_service" where
  "handleOffer sub answerSdp u offerSdp s =
     (let (p, s1) = getOrCreatePeerConnection u s;
          s2 = pc_call p (SetRemoteDescription Offer offerSdp) s1;
          s3 = pc_call p CreateAnswer s2;
          s4 = pc_call p (SetLocalDescription answerSdp) s3
      in sendSignalingMessage ((signal ''answer'' (currentUserId sub))\<lparr>sdp := answerSdp\<rparr>) s4)"

definition handleAnswer :: "string \<Rightarrow> string \<Rightarrow> webrtc_service \<Rightarrow> webrtc_service" where
  "handleAnswer u answerSdp s =
     (case map_of (peerConnections s) u of
        None \<Rightarrow> s
      | Some p \<Rightarrow> pc_call p (SetRemoteDescription Answer answerSdp) s)"

definition handleIceCandidate :: "string \<Rightarrow> ice_candidate \<Rightarrow> webrtc_service \<Rightarrow> webrtc_service" where
  "handleIceCandidate u c s =
     (case map_of (peerConnections s) u of
        None \<Rightarrow> s
      | Some p \<Rightarrow> pc_call p (AddIceCandidate c) s)"

definition handleParticipantMuted :: "string \<Rightarrow> bool \<Rightarrow> webrtc_service \<Rightarrow> webrtc_service" where
  "handleParticipantMuted u m s =
     updateState
       (\<lambda>c. c\<lparr>participants := map (\<lambda>q. if userId q = u then q\<lparr>p_isMuted := Some m\<rparr> else q)
                                  (participants (callState s))\<rparr>) s"

definition handleParticipantVideo :: "string \<Rightarrow> bool \<Rightarrow> webrtc_service \<Rightarrow> webrtc_service" where
  "handleParticipantVideo u v s =
     updateState
       (\<lambda>c. c\<lparr>participants := map (\<lambda>q. if userId q = u then q\<lparr>p_isVideoEnabled := Some v\<rparr> else q)
                                  (participants (callState s))\<rparr>) s"

text \<open>
  \<open>handleSignalingMessage\<close>: a message without a truthy \<open>user_id\<close> is ignored; an
  \<open>sdp\<close> must be a non-empty string, a \<open>candidate\<close> must be present, and the two flags
  must be booleans.
\<close>

definition handleSignalingMessage ::
  "string option \<Rightarrow> string option \<Rightarrow> signaling_message \<Rightarrow> webrtc_service \<Rightarrow> webrtc_service" where
  "handleSignalingMessage sub answerSdp message s =
     (case user_id message of
        None \<Rightarrow> s
      | Some u \<Rightarrow>
          if u = [] then s
          else if sm_type message = ''offer''
          then (case sdp message of
                  None \<Rightarrow> s
                | Some d \<Rightarrow> if d = [] then s else handleOffer sub answerSdp u d s)
          else if sm_type message = ''answer''
          then (case sdp message of
                  None \<Rightarrow> s
                | Some d \<Rightarrow> if d = [] then s else handleAnswer u d s)
          else if sm_type message = ''ice-candidate''
          then (case candidate message of None \<Rightarrow> s | Some c \<Rightarrow> handleIceCandidate u c s)
          else if sm_type message = ''participant_muted''
          then (case muted message of None \<Rightarrow> s | Some m \<Rightarrow> handleParticipantMuted u m s)
          else if sm_type message = ''participant_video''
          then (case video_enabled message of None \<Rightarrow> s | Some v \<Rightarrow> handleParticipantVideo u v s)
          else s)"

definition handleIncomingCall :: "string \<Rightarrow> string \<Rightarrow> call_type \<Rightarrow> webrtc_service \<Rightarrow> webrtc_service" where
  "handleIncomingCall cid callerId ct s =
     updateState
       (\<lambda>c. c\<lparr>callId := Some cid, isIncoming := True, callType := ct,
              isVideoEnabled := (ct = Video),
              participants := [\<lparr>userId = callerId, stream = None, peerConnection = None,
                                p_isMuted = None, p_isVideoEnabled = None\<rparr>]\<rparr>) s"

text \<open>The handlers installed on the signalling socket by \<open>connectSignaling\<close>.\<close>

definition signaling_onclose :: "webrtc_service \<Rightarrow> webrtc_service" where
  "signaling_onclose s = s\<lparr>signalingSocket := None\<rparr>"

definition signaling_onmessage ::
  "string option \<Rightarrow> string option \<Rightarrow> signaling_message option \<Rightarrow> webrtc_service \<Rightarrow> webrtc_service" where
  "signaling_onmessage sub answerSdp parsed s =
     (case parsed of None \<Rightarrow> s | Some message \<Rightarrow> handleSignalingMessage sub answerSdp message s)"

subsection \<open>Runs of the service\<close>

text \<open>
  What can happen to the service: a call of a public method (with the answers of the
  collaborators it awaits), or an event on an object it has created. A signalling socket
  delivers a message only while it is open (\<open>None\<close> stands for a frame that
  \<open>JSON.parse\<close> rejects), and a peer connection fires its handlers only for the user
  it was created for.
\<close>

datatype svc_event =
    DoInitiateCall bool "string option" bool "string list" call_type
  | DoJoinCall bool bool bool string
  | DoEndCall bool
  | DoAcceptIncomingCall bool bool bool string call_type
  | DoDeclineIncomingCall bool string
  | DoToggleMute "string option"
  | DoToggleVideo "string option"
  | DoHandleIncomingCall string string call_type
  | SignalingMessage nat "string option" "string option" "signaling_message option"
  | SignalingClosed nat
  | RemoteTrack string nat nat
  | LocalCandidate "string option" "ice_candidate option"

fun svc_step :: "svc_event \<Rightarrow> webrtc_service \<Rightarrow> webrtc_service" where
  "svc_step (DoInitiateCall granted response opens ps ct) s = snd (initiateCall granted response opens ps ct s)"
| "svc_step (DoJoinCall api_ok granted opens cid) s = snd (joinCall api_ok granted opens cid s)"
| "svc_step (DoEndCall api_ok) s = endCall api_ok s"
| "svc_step (DoAcceptIncomingCall api_ok granted opens cid ct) s =
     snd (acceptIncomingCall api_ok granted opens cid ct s)"
| "svc_step (DoDeclineIncomingCall api_ok cid) s = declineIncomingCall api_ok cid s"
| "svc_step (DoToggleMute sub) s = toggleMute sub s"
| "svc_step (DoToggleVideo sub) s = toggleVideo sub s"
| "svc_step (DoHandleIncomingCall cid callerId ct) s = handleIncomingCall cid callerId ct s"
| "svc_step (SignalingMessage i sub answerSdp parsed) s =
     (if i < nextRtcSocket s \<and> readyState (rtcSockets s i) = OPEN
      then signaling_onmessage sub answerSdp parsed s else s)"
| "svc_step (SignalingClosed i) s =
     (if i < nextRtcSocket s
      then signaling_onclose (s\<lparr>rtcSockets := (rtcSockets s)(i := (rtcSockets s i)\<lparr>readyState := CLOSED\<rparr>)\<rparr>)
      else s)"
| "svc_step (RemoteTrack u p remoteStream) s =
     (if p < nextPc s \<and> (u, p) \<in> set (peerConnections s) then ontrack u p remoteStream s else s)"
| "svc_step (LocalCandidate sub cand) s = (if 0 < nextPc s then onicecandidate sub cand s else s)"

fun svc_run :: "svc_event list \<Rightarrow> webrtc_service \<Rightarrow> webrtc_service" where
  "svc_run [] s = s"
| "svc_run (e # es) s = svc_run es (svc_step e s)"

text \<open>Every message the service has put on any of its sockets.\<close>

definition sent_frames :: "webrtc_service \<Rightarrow> signaling_message list" where
  "sent_frames s = concat (map (\<lambda>i. frames (rtcSockets s i)) [0 ..< nextRtcSocket s])"

section \<open>Concrete inputs\<close>

definition env0 :: ws_env where
  "env0 = \<lparr>stringify = (\<lambda>m. Some (mtype m @ '':'' @ mdata m)),
           parse = (\<lambda>d. Some \<lparr>mtype = d, mdata = []\<rparr>),
           handlerThrows = (\<lambda>h m. h = 1)\<rparr>"

text \<open>Scenario A: an open link closes abnormally and every reconnection fails.\<close>

definition scenarioA :: "ws_event list" where
  "scenarioA =
     [OnClose 0 1006,
      ReconnectTimerFires (Some ''tok''), OnError 1, OnClose 1 1006,
      ReconnectTimerFires (Some ''tok''), OnError 2, OnClose 2 1006,
      ReconnectTimerFires (Some ''tok''), OnError 3, OnClose 3 1006,
      ReconnectTimerFires (Some ''tok''), OnError 4, OnClose 4 1006,
      ReconnectTimerFires (Some ''tok''), OnError 5, OnClose 5 1006]"

definition connecting0 :: ws_manager where
  "connecting0 = snd (connect (Some ''tok'') ''web-1'' WebSocketManager)"

definition connected0 :: ws_manager where
  "connected0 = run env0 [Connect (Some ''tok'') ''web-1'', OnOpen 0] WebSocketManager"


definition threeHandlers :: ws_manager where
  "threeHandlers =
     addEventListener ''typing'' 2 (addEventListener ''typing'' 1
       (addEventListener ''typing'' 0 WebSocketManager))"

definition registeredTwice :: ws_manager where
  "registeredTwice = addEventListener ''typing'' 7 (addEventListener ''typing'' 7 WebSocketManager)"

definition handlersOf :: "ws_manager \<Rightarrow> string \<Rightarrow> nat list" where
  "handlersOf s t = (case eventHandlers s t of None \<Rightarrow> [] | Some hs \<Rightarrow> hs)"

text \<open>A video call to \<open>u2\<close> that was set up without a fault.\<close>

definition inCall :: webrtc_service where
  "inCall = snd (initiateCall True (Some ''call-1'') True [''u2''] Video WebRTCService)"

definition offerU2 :: signaling_message where
  "offerU2 = (signal ''offer'' ''u2'')\<lparr>sdp := Some ''v=0''\<rparr>"

definition offerU3 :: signaling_message where
  "offerU3 = (signal ''offer'' ''u3'')\<lparr>sdp := Some ''v=0''\<rparr>"

definition iceU3 :: signaling_message where
  "iceU3 = (signal ''ice-candidate'' ''u3'')\<lparr>candidate := Some (IceCandidate ''c1'')\<rparr>"

text \<open>The same call after the offer of \<open>u2\<close> has been answered.\<close>

definition inCallWithPeer :: webrtc_service where
  "inCallWithPeer = svc_run [SignalingMessage 0 (Some ''me'') (Some ''ans'') (Some offerU2)] inCall"

section \<open>Properties of the signalling link\<close>

lemmas ws_defs = connect_def disconnect_def send_def addEventListener_def removeEventListener_def
  addConnectionListener_def removeConnectionListener_def handleMessage_def onclose_def onopen_def
  scheduleReconnect_def onerror_def connectTimeout_def reconnectTimer_def set_readyState_def
  notifyConnectionListeners_def isConnected_def new_WebSocket_def socket_close_def socket_send_def
  WebSocketManager_def Let_def

subsection \<open>What each step does to the reconnection state\<close>

lemma reconnect_delays_append:
  "reconnect_delays (xs @ ys) = reconnect_delays xs @ reconnect_delays ys"
  by (induction xs rule: reconnect_delays.induct) simp_all

lemma notify_link [simp]:
  "timers (notifyConnectionListeners b s) = timers s"
  "reconnectAttempts (notifyConnectionListeners b s) = reconnectAttempts s"
  "maxReconnectAttempts (notifyConnectionListeners b s) = maxReconnectAttempts s"
  "reconnectDelay (notifyConnectionListeners b s) = reconnectDelay s"
  by (simp_all add: notifyConnectionListeners_def)

lemma forEach_handler_link [simp]:
  "timers (forEach_handler env m hs s) = timers s"
  "reconnectAttempts (forEach_handler env m hs s) = reconnectAttempts s"
  "maxReconnectAttempts (forEach_handler env m hs s) = maxReconnectAttempts s"
  "reconnectDelay (forEach_handler env m hs s) = reconnectDelay s"
  by (induction hs arbitrary: s) (simp_all add: Let_def)

lemma connect_link:
  "reconnect_delays (timers (snd (connect tok dev s))) = reconnect_delays (timers s)"
  "reconnectAttempts (snd (connect tok dev s)) = reconnectAttempts s"
  "maxReconnectAttempts (snd (connect tok dev s)) = maxReconnectAttempts s"
  "reconnectDelay (snd (connect tok dev s)) = reconnectDelay s"
  by (simp_all add: connect_def Let_def reconnect_delays_append split: option.splits)

lemma disconnect_link:
  "timers (disconnect s) = timers s"
  "reconnectAttempts (disconnect s) = maxReconnectAttempts s"
  "maxReconnectAttempts (disconnect s) = maxReconnectAttempts s"
  by (simp_all add: disconnect_def Let_def split: option.splits)

lemmas step_defs = send_def addEventListener_def removeEventListener_def
  addConnectionListener_def removeConnectionListener_def handleMessage_def onclose_def
  scheduleReconnect_def onerror_def connectTimeout_def reconnectTimer_def set_readyState_def
  Let_def

text \<open>The cap is never written after construction.\<close>

lemma step_max: "maxReconnectAttempts (step env e s) = maxReconnectAttempts s"
  by (cases e) (simp_all add: connect_link disconnect_link onopen_def step_defs split: option.splits)

lemma run_max: "maxReconnectAttempts (run env es s) = maxReconnectAttempts s"
  by (induction es arbitrary: s) (simp_all add: step_max)

text \<open>Only \<open>onopen\<close> writes the base delay.\<close>

lemma step_delay:
  "\<not> is_open e \<Longrightarrow> reconnectDelay (step env e s) = reconnectDelay s"
  by (cases e) (simp_all add: connect_link disconnect_def step_defs split: option.splits)

lemma run_delay:
  "\<forall>e\<in>set es. \<not> is_open e \<Longrightarrow> reconnectDelay (run env es s) = reconnectDelay s"
  by (induction es arbitrary: s) (simp_all add: step_delay)



text \<open>
  Below the cap, a step either leaves the counter and the scheduled reconnections alone,
  or counts one more attempt and schedules it with the delay computed from the counter.
\<close>

lemma step_backoff:
  assumes "\<not> is_open e" "\<not> is_disconnect e"
    and "reconnectDelay s = 1000" "maxReconnectAttempts s = 5" "reconnectAttempts s \<le> 5"
  shows "reconnectAttempts (step env e s) \<le> 5 \<and>
     (reconnectAttempts (step env e s) = reconnectAttempts s \<and>
        reconnect_delays (timers (step env e s)) = reconnect_delays (timers s)
      \<or> reconnectAttempts (step env e s) = Suc (reconnectAttempts s) \<and>
        reconnect_delays (timers (step env e s)) =
          reconnect_delays (timers s) @ [min (1000 * 2 ^ reconnectAttempts s) 30000])"
  using assms
  by (cases e) (simp_all add: connect_link step_defs reconnect_delays_append split: option.splits)

lemma run_backoff:
  assumes "\<forall>e\<in>set es. \<not> is_open e \<and> \<not> is_disconnect e"
    and "reconnectDelay s = 1000" "maxReconnectAttempts s = 5" "reconnectAttempts s \<le> 5"
  shows "reconnectAttempts s \<le> reconnectAttempts (run env es s) \<and>
     reconnectAttempts (run env es s) \<le> 5 \<and>
     reconnect_delays (timers (run env es s)) =
       reconnect_delays (timers s) @
       map (\<lambda>n. min (1000 * 2 ^ (n - 1)) 30000)
         [Suc (reconnectAttempts s) ..< Suc (reconnectAttempts (run env es s))]"
  using assms
proof (induction es arbitrary: s)
  case Nil
  then show ?case by simp
next
  case (Cons e es)
  let ?s' = "step env e s"
  from Cons.prems have e: "\<not> is_open e" "\<not> is_disconnect e"
    and es: "\<forall>e\<in>set es. \<not> is_open e \<and> \<not> is_disconnect e" by simp_all
  from step_delay [OF e(1), of env s] step_max [of env e s] Cons.prems
  have c: "reconnectDelay ?s' = 1000" "maxReconnectAttempts ?s' = 5" by simp_all
  from step_backoff [OF e Cons.prems(2,3,4), of env]
  have le: "reconnectAttempts ?s' \<le> 5"
    and alt: "reconnectAttempts ?s' = reconnectAttempts s \<and>
        reconnect_delays (timers ?s') = reconnect_delays (timers s)
      \<or> reconnectAttempts ?s' = Suc (reconnectAttempts s) \<and>
        reconnect_delays (timers ?s') =
          reconnect_delays (timers s) @ [min (1000 * 2 ^ reconnectAttempts s) 30000]"
    by simp_all
  note ih = Cons.IH [OF es c le]
  from alt show ?case
  proof
    assume "reconnectAttempts ?s' = reconnectAttempts s \<and>
        reconnect_delays (timers ?s') = reconnect_delays (timers s)"
    with ih show ?thesis by simp
  next
    assume a: "reconnectAttempts ?s' = Suc (reconnectAttempts s) \<and>
        reconnect_delays (timers ?s') =
          reconnect_delays (timers s) @ [min (1000 * 2 ^ reconnectAttempts s) 30000]"
    with ih have lt: "Suc (reconnectAttempts s) < Suc (reconnectAttempts (run env es ?s'))" by simp
    from ih a show ?thesis by (simp del: upt_Suc add: upt_conv_Cons [OF lt])
  qed
qed

subsection \<open>Reconnection\<close>

text \<open>The base delay is 1000 ms in every state the manager can reach.\<close>

lemma step_delay_1000: "reconnectDelay s = 1000 \<Longrightarrow> reconnectDelay (step env e s) = 1000"
  by (cases e) (simp_all add: connect_link disconnect_def onopen_def step_defs split: option.splits)

lemma run_delay_1000: "reconnectDelay s = 1000 \<Longrightarrow> reconnectDelay (run env es s) = 1000"
  by (induction es arbitrary: s) (simp_all add: step_delay_1000)

text \<open>
  C3. Take the link in any state it can reach in which the attempt counter is 0 (as it is
  at construction and right after every successful connect). From there on, through any
  sequence of events in which no socket opens and \<open>disconnect\<close> is not called, the
  reconnections scheduled are, in order, attempt \<open>n = 1, 2, \<dots>\<close> with delay
  \<open>min (1000 * 2 ^ (n - 1)) 30000\<close> ms, up to the current value of the counter, which
  never exceeds 5; as long as the counter is below 5, every close with a code other than
  4001 counts the next attempt and schedules it with that delay; and a socket that opens
  resets the counter to 0 and the base delay to 1000 ms. The witness is scenario A: the
  delays are 1 s, 2 s, 4 s, 8 s, 16 s.
\<close>

theorem reconnect_backoff:
  assumes "s = run env es0 WebSocketManager" and "reconnectAttempts s = 0"
    and "\<forall>e\<in>set es. \<not> is_open e \<and> \<not> is_disconnect e"
  shows "reconnectAttempts (run env es s) \<le> 5 \<and>
     reconnect_delays (timers (run env es s)) =
       reconnect_delays (timers s) @
       map (\<lambda>n. min (1000 * 2 ^ (n - 1)) 30000) [1 ..< Suc (reconnectAttempts (run env es s))] \<and>
     (\<forall>j code. j < nextSocket (run env es s) \<and> code \<noteq> 4001 \<and> reconnectAttempts (run env es s) < 5 \<longrightarrow>
        timers (step env (OnClose j code) (run env es s)) =
          timers (run env es s) @
          [ReconnectTimer (min (1000 * 2 ^ (Suc (reconnectAttempts (run env es s)) - 1)) 30000)] \<and>
        reconnectAttempts (step env (OnClose j code) (run env es s)) =
          Suc (reconnectAttempts (run env es s))) \<and>
     (\<forall>j. j < nextSocket (run env es s) \<longrightarrow>
        reconnectAttempts (step env (OnOpen j) (run env es s)) = 0 \<and>
        reconnectDelay (step env (OnOpen j) (run env es s)) = 1000)"
proof -
  have m: "maxReconnectAttempts s = 5"
    unfolding assms(1) run_max by (simp add: WebSocketManager_def)
  have d: "reconnectDelay s = 1000"
    unfolding assms(1) by (rule run_delay_1000) (simp add: WebSocketManager_def)
  have le0: "reconnectAttempts s \<le> 5" using assms(2) by simp
  note rb = run_backoff [OF assms(3) d m le0, of env]
  have dd: "reconnectDelay (run env es s) = 1000"
    using d by (rule run_delay_1000)
  have mm: "maxReconnectAttempts (run env es s) = 5" using m by (simp add: run_max)
  have close: "\<forall>j code. j < nextSocket (run env es s) \<and> code \<noteq> 4001 \<and> reconnectAttempts (run env es s) < 5 \<longrightarrow>
        timers (step env (OnClose j code) (run env es s)) =
          timers (run env es s) @
          [ReconnectTimer (min (1000 * 2 ^ (Suc (reconnectAttempts (run env es s)) - 1)) 30000)] \<and>
        reconnectAttempts (step env (OnClose j code) (run env es s)) =
          Suc (reconnectAttempts (run env es s))"
    using dd mm by (simp add: onclose_def scheduleReconnect_def set_readyState_def Let_def)
  have "open": "\<forall>j. j < nextSocket (run env es s) \<longrightarrow>
        reconnectAttempts (step env (OnOpen j) (run env es s)) = 0 \<and>
        reconnectDelay (step env (OnOpen j) (run env es s)) = 1000"
    by (simp add: onopen_def set_readyState_def)
  from assms(2) rb close "open" show ?thesis by simp
qed

theorem reconnect_backoff_witness:
  "reconnectAttempts connected0 = 0 \<and>
   list_all (\<lambda>e. \<not> is_open e \<and> \<not> is_disconnect e) scenarioA \<and>
   reconnect_delays (timers (run env0 scenarioA connected0)) = [1000, 2000, 4000, 8000, 16000] \<and>
   reconnectAttempts (step env0 (OnOpen 5) (run env0 scenarioA connected0)) = 0"
proof -
  have h0: "connected0 = run env0 [Connect (Some ''tok'') ''web-1'', OnOpen 0] WebSocketManager"
    by (simp add: connected0_def)
  have h1: "reconnectAttempts connected0 = 0" by (simp add: connected0_def ws_defs)
  have h2: "\<forall>e\<in>set scenarioA. \<not> is_open e \<and> \<not> is_disconnect e"
    by (simp add: scenarioA_def)
  have a: "reconnectAttempts (run env0 scenarioA connected0) = 5"
    by (simp add: scenarioA_def connected0_def ws_defs)
  have n: "nextSocket (run env0 scenarioA connected0) = 6"
    by (simp add: scenarioA_def connected0_def ws_defs)
  have t: "reconnect_delays (timers connected0) = []" by (simp add: connected0_def ws_defs)
  have u: "[Suc 0 ..< 6] = [1, 2, 3, 4, 5]" by (simp add: upt_conv_Cons)
  from reconnect_backoff [OF h0 h1 h2] a n t u h1 h2 show ?thesis
    by (simp add: list_all_iff)
qed



subsection \<open>Sending\<close>

text \<open>
  C7. For every message, \<open>send\<close> called while the link is not connected returns \<open>false\<close>
  and changes nothing: no frame is written to any socket, nothing is queued, and every
  field of the manager keeps its value.
\<close>

theorem send_not_connected:
  "\<not> isConnected s \<Longrightarrow> send env message s = (False, s)"
  by (simp add: send_def)

theorem send_not_connected_witness:
  "\<not> isConnected connecting0 \<and>
   send env0 \<lparr>mtype = ''typing'', mdata = ''x''\<rparr> connecting0 = (False, connecting0) \<and>
   frames (sockets connecting0 0) = []"
proof -
  have h: "\<not> isConnected connecting0" by (simp add: connecting0_def ws_defs)
  have f: "frames (sockets connecting0 0) = []" by (simp add: connecting0_def ws_defs)
  from send_not_connected [OF h] h f show ?thesis by simp
qed

subsection \<open>Dispatch\<close>

lemma forEach_handler_invoked:
  "invoked (forEach_handler env m hs s) = invoked s @ map (\<lambda>h. (h, m)) hs \<and>
   handlerErrors (forEach_handler env m hs s) =
     handlerErrors s @ filter (\<lambda>h. handlerThrows env h m) hs"
  by (induction hs arbitrary: s) (simp_all add: Let_def)



text \<open>
  C9, as stated, fails: a callback registered twice for \<open>typing\<close> is called twice by one
  \<open>typing\<close> message.
\<close>

theorem double_registration_counterexample:
  "invoked (handleMessage env0 ''typing'' registeredTwice) =
     [(7, \<lparr>mtype = ''typing'', mdata = []\<rparr>), (7, \<lparr>mtype = ''typing'', mdata = []\<rparr>)]"
  by (simp add: registeredTwice_def addEventListener_def WebSocketManager_def handleMessage_def env0_def)

text \<open>
  C9, amended. \<open>addEventListener\<close> does not de-duplicate: after the same callback has
  been registered twice for a type, one message of that type calls every handler
  registered before and then that callback twice, once per registration.
\<close>

theorem double_registration_invoked_twice:
  assumes "parse env d = Some m"
  shows "invoked (handleMessage env d (addEventListener (mtype m) h (addEventListener (mtype m) h s))) =
     invoked s @ map (\<lambda>x. (x, m)) (handlersOf s (mtype m)) @ [(h, m), (h, m)]"
  using assms
  by (simp add: handleMessage_def addEventListener_def forEach_handler_invoked handlersOf_def
      split: option.splits)

theorem double_registration_invoked_twice_witness:
  "parse env0 ''typing'' = Some \<lparr>mtype = ''typing'', mdata = []\<rparr> \<and>
   invoked (handleMessage env0 ''typing''
      (addEventListener ''typing'' 7 (addEventListener ''typing'' 7 threeHandlers))) =
     [(0, \<lparr>mtype = ''typing'', mdata = []\<rparr>), (1, \<lparr>mtype = ''typing'', mdata = []\<rparr>),
      (2, \<lparr>mtype = ''typing'', mdata = []\<rparr>), (7, \<lparr>mtype = ''typing'', mdata = []\<rparr>),
      (7, \<lparr>mtype = ''typing'', mdata = []\<rparr>)]"
proof -
  have p: "parse env0 ''typing'' = Some \<lparr>mtype = ''typing'', mdata = []\<rparr>"
    by (simp add: env0_def)
  have i: "invoked threeHandlers = []" "handlersOf threeHandlers ''typing'' = [0, 1, 2]"
    by (simp_all add: threeHandlers_def addEventListener_def WebSocketManager_def handlersOf_def)
  from double_registration_invoked_twice [OF p, of 7 threeHandlers] p i show ?thesis by simp
qed

section \<open>Properties of the call service\<close>

lemmas rtc_eval = initiateCall_def getLocalStream_def getUserMedia_def connectSignaling_def
  updateState_def WebRTCService_def new_WebSocket_def signalingUrl_def Let_def endCall_def cleanup_def
  stop_track_def close_pc_def pc_call_def toggleMute_def first_track_def sendSignalingMessage_def
  signal_def currentUserId_def handleSignalingMessage_def handleOffer_def
  getOrCreatePeerConnection_def handleIceCandidate_def socket_send_def socket_close_def inCall_def
  signaling_onmessage_def sent_frames_def iceU3_def offerU3_def offerU2_def inCallWithPeer_def

subsection \<open>Loops over the object stores\<close>

lemma fold_stop_track:
  "fold stop_track st s =
     s\<lparr>tracks := (\<lambda>t. if t \<in> set st then (tracks s t)\<lparr>stopped := True\<rparr> else tracks s t)\<rparr>"
proof (induction st arbitrary: s)
  case Nil
  show ?case by simp
next
  case (Cons a st)
  have "fold stop_track (a # st) s = fold stop_track st (stop_track a s)" by simp
  also have "\<dots> = s\<lparr>tracks := (\<lambda>t. if t \<in> set (a # st) then (tracks s t)\<lparr>stopped := True\<rparr> else tracks s t)\<rparr>"
    unfolding Cons.IH by (auto simp: stop_track_def fun_eq_iff)
  finally show ?case .
qed

lemma fold_pc_call:
  "fold (\<lambda>x. pc_call p (f x)) xs s =
     s\<lparr>pcs := (pcs s)(p := (pcs s p)\<lparr>calls := calls (pcs s p) @ map f xs\<rparr>)\<rparr>"
proof (induction xs arbitrary: s)
  case Nil
  show ?case by simp
next
  case (Cons a xs)
  have "fold (\<lambda>x. pc_call p (f x)) (a # xs) s = fold (\<lambda>x. pc_call p (f x)) xs (pc_call p (f a) s)"
    by simp
  also have "\<dots> = s\<lparr>pcs := (pcs s)(p := (pcs s p)\<lparr>calls := calls (pcs s p) @ map f (a # xs)\<rparr>)\<rparr>"
    unfolding Cons.IH by (simp add: pc_call_def)
  finally show ?case .
qed

lemma fold_close_pc:
  "fold close_pc ps s =
     s\<lparr>pcs := (\<lambda>p. (pcs s p)\<lparr>calls := calls (pcs s p) @ replicate (count_list ps p) Close,
                              closed := (p \<in> set ps \<or> closed (pcs s p))\<rparr>)\<rparr>"
proof (induction ps arbitrary: s)
  case Nil
  show ?case by simp
next
  case (Cons a ps)
  have "fold close_pc (a # ps) s = fold close_pc ps (close_pc a s)" by simp
  also have "\<dots> = s\<lparr>pcs := (\<lambda>p. (pcs s p)\<lparr>calls := calls (pcs s p) @ replicate (count_list (a # ps) p) Close,
                              closed := (p \<in> set (a # ps) \<or> closed (pcs s p))\<rparr>)\<rparr>"
    unfolding Cons.IH by (auto simp: close_pc_def pc_call_def Let_def fun_eq_iff replicate_app_Cons_same)
  finally show ?case .
qed

subsection \<open>\<open>cleanup\<close>\<close>

lemma cleanup_effect:
  "localStream (cleanup s) = None"
  "peerConnections (cleanup s) = []"
  "callState (cleanup s) = callState s"
  "restCalls (cleanup s) = restCalls s"
  "signalingSocket (cleanup s) = signalingSocket s"
  by (simp_all add: cleanup_def fold_stop_track fold_close_pc Let_def split: option.splits)

lemma cleanup_stops:
  "localStream s = Some st \<Longrightarrow> t \<in> set st \<Longrightarrow> stopped (tracks (cleanup s) t)"
  by (simp add: cleanup_def fold_stop_track fold_close_pc Let_def split: option.splits)

lemma cleanup_closes:
  "(u, p) \<in> set (peerConnections s) \<Longrightarrow> closed (pcs (cleanup s) p)"
  by (force simp add: cleanup_def fold_stop_track fold_close_pc Let_def split: option.splits)

text \<open>
  C10. When the call has a (non-empty) call id and the REST end-call request fails,
  \<open>endCall\<close> still stops every track of the local stream and drops the stream, closes
  every peer connection in the map and empties the map; the call state, and with it
  \<open>isActive\<close> and \<open>participants\<close>, is left exactly as it was.
\<close>

theorem endCall_rest_failure:
  assumes "callId (callState s) = Some cid" and "cid \<noteq> []"
  shows "localStream (endCall False s) = None \<and>
     (\<forall>st. localStream s = Some st \<longrightarrow> (\<forall>t\<in>set st. stopped (tracks (endCall False s) t))) \<and>
     (\<forall>(u, p)\<in>set (peerConnections s). closed (pcs (endCall False s) p)) \<and>
     peerConnections (endCall False s) = [] \<and>
     callState (endCall False s) = callState s \<and>
     restCalls (endCall False s) = restCalls s @ [EndCall cid]"
proof -
  let ?s1 = "s\<lparr>restCalls := restCalls s @ [EndCall cid]\<rparr>"
  have e: "endCall False s = cleanup ?s1"
    using assms by (simp add: endCall_def Let_def)
  have "\<forall>st. localStream s = Some st \<longrightarrow> (\<forall>t\<in>set st. stopped (tracks (cleanup ?s1) t))"
    using cleanup_stops [of ?s1] by simp
  moreover have "\<forall>(u, p)\<in>set (peerConnections s). closed (pcs (cleanup ?s1) p)"
    using cleanup_closes [of _ _ ?s1] by auto
  ultimately show ?thesis
    unfolding e by (simp add: cleanup_effect)
qed

theorem endCall_rest_failure_witness:
  "callId (callState inCallWithPeer) = Some ''call-1'' \<and>
   peerConnections inCallWithPeer = [(''u2'', 0)] \<and>
   localStream inCallWithPeer = Some [0, 1] \<and>
   localStream (endCall False inCallWithPeer) = None \<and>
   stopped (tracks (endCall False inCallWithPeer) 0) \<and>
   stopped (tracks (endCall False inCallWithPeer) 1) \<and>
   closed (pcs (endCall False inCallWithPeer) 0) \<and>
   peerConnections (endCall False inCallWithPeer) = [] \<and>
   isActive (callState (endCall False inCallWithPeer))"
proof -
  have c: "callId (callState inCallWithPeer) = Some ''call-1''" by (simp add: rtc_eval)
  have n: "''call-1'' \<noteq> []" by simp
  have p: "peerConnections inCallWithPeer = [(''u2'', 0)]" by (simp add: rtc_eval)
  have l: "localStream inCallWithPeer = Some [0, 1]" by (simp add: rtc_eval)
  have a: "isActive (callState inCallWithPeer)" by (simp add: rtc_eval)
  from endCall_rest_failure [OF c n] c p l a show ?thesis by simp
qed

subsection \<open>ICE candidates\<close>

lemma handleIceCandidate_fold:
  "map_of (peerConnections s) u = Some p \<Longrightarrow>
     fold (handleIceCandidate u) cs s =
       s\<lparr>pcs := (pcs s)(p := (pcs s p)\<lparr>calls := calls (pcs s p) @ map AddIceCandidate cs\<rparr>)\<rparr>"
proof (induction cs arbitrary: s)
  case Nil
  show ?case by simp
next
  case (Cons c cs)
  let ?s' = "handleIceCandidate u c s"
  have s': "?s' = pc_call p (AddIceCandidate c) s"
    using Cons.prems by (simp add: handleIceCandidate_def)
  then have m: "map_of (peerConnections ?s') u = Some p"
    using Cons.prems by (simp add: pc_call_def)
  have "fold (handleIceCandidate u) (c # cs) s = fold (handleIceCandidate u) cs ?s'" by simp
  also have "\<dots> = s\<lparr>pcs := (pcs s)(p := (pcs s p)\<lparr>calls := calls (pcs s p) @ map AddIceCandidate (c # cs)\<rparr>)\<rparr>"
    unfolding Cons.IH [OF m] unfolding s' by (simp add: pc_call_def)
  finally show ?case .
qed

lemma handleOffer_new_peer:
  assumes "map_of (peerConnections s) u = None"
  shows "calls (pcs (handleOffer sub ans u d s) (nextPc s)) =
     map AddTrack (case localStream s of None \<Rightarrow> [] | Some st \<Rightarrow> st) @
     [SetRemoteDescription Offer d, CreateAnswer, SetLocalDescription ans]"
  using assms
  by (simp add: handleOffer_def getOrCreatePeerConnection_def fold_pc_call pc_call_def
      sendSignalingMessage_def Let_def split: option.splits)

text \<open>
  C1, as stated, fails (scenario D): a candidate for \<open>u3\<close> that arrives before any offer
  from \<open>u3\<close> leaves the service exactly as it was, and when the offer is then processed
  the new peer connection receives the local tracks, the remote description and the
  answer, and no candidate.
\<close>

theorem ice_before_offer_counterexample:
  "svc_step (SignalingMessage 0 (Some ''me'') (Some ''ans'') (Some iceU3)) inCall = inCall \<and>
   calls (pcs (svc_run [SignalingMessage 0 (Some ''me'') (Some ''ans'') (Some iceU3),
                        SignalingMessage 0 (Some ''me'') (Some ''ans'') (Some offerU3)] inCall) 0) =
     [AddTrack 0, AddTrack 1, SetRemoteDescription Offer ''v=0'', CreateAnswer,
      SetLocalDescription (Some ''ans'')]"
  by (simp add: rtc_eval)

text \<open>
  C1, amended. Nothing is buffered. A candidate received for a user who has no peer
  connection is discarded: the service does not change, and the offer processed
  afterwards applies no candidate. Candidates received for a user who has a peer
  connection (created by \<open>handleOffer\<close>, which sets the remote description at once)
  are each passed to \<open>addIceCandidate\<close> on that connection immediately, in arrival order.
\<close>

theorem ice_candidate_applied_or_dropped:
  "(map_of (peerConnections s) u = None \<longrightarrow>
      handleIceCandidate u c s = s \<and>
      calls (pcs (handleOffer sub ans u d (handleIceCandidate u c s)) (nextPc s)) =
        map AddTrack (case localStream s of None \<Rightarrow> [] | Some st \<Rightarrow> st) @
        [SetRemoteDescription Offer d, CreateAnswer, SetLocalDescription ans]) \<and>
   (\<forall>p. map_of (peerConnections s) u = Some p \<longrightarrow>
      calls (pcs (fold (handleIceCandidate u) cs s) p) = calls (pcs s p) @ map AddIceCandidate cs)"
proof (intro conjI allI impI)
  assume n: "map_of (peerConnections s) u = None"
  then show d: "handleIceCandidate u c s = s" by (simp add: handleIceCandidate_def)
  show "calls (pcs (handleOffer sub ans u d (handleIceCandidate u c s)) (nextPc s)) =
        map AddTrack (case localStream s of None \<Rightarrow> [] | Some st \<Rightarrow> st) @
        [SetRemoteDescription Offer d, CreateAnswer, SetLocalDescription ans]"
    unfolding d by (rule handleOffer_new_peer [OF n])
next
  fix p assume "map_of (peerConnections s) u = Some p"
  then show "calls (pcs (fold (handleIceCandidate u) cs s) p) = calls (pcs s p) @ map AddIceCandidate cs"
    by (simp add: handleIceCandidate_fold)
qed

theorem ice_candidate_applied_or_dropped_witness:
  "map_of (peerConnections inCallWithPeer) ''u3'' = None \<and>
   handleIceCandidate ''u3'' (IceCandidate ''c1'') inCallWithPeer = inCallWithPeer \<and>
   map_of (peerConnections inCallWithPeer) ''u2'' = Some 0 \<and>
   calls (pcs (fold (handleIceCandidate ''u2'') [IceCandidate ''c1'', IceCandidate ''c2''] inCallWithPeer) 0) =
     [AddTrack 0, AddTrack 1, SetRemoteDescription Offer ''v=0'', CreateAnswer,
      SetLocalDescription (Some ''ans''), AddIceCandidate (IceCandidate ''c1''),
      AddIceCandidate (IceCandidate ''c2'')]"
proof -
  have n: "map_of (peerConnections inCallWithPeer) ''u3'' = None" by (simp add: rtc_eval)
  have m: "map_of (peerConnections inCallWithPeer) ''u2'' = Some 0" by (simp add: rtc_eval)
  have c: "calls (pcs inCallWithPeer 0) =
     [AddTrack 0, AddTrack 1, SetRemoteDescription Offer ''v=0'', CreateAnswer,
      SetLocalDescription (Some ''ans'')]" by (simp add: rtc_eval)
  from ice_candidate_applied_or_dropped [of inCallWithPeer "''u3''" "IceCandidate ''c1''"]
    ice_candidate_applied_or_dropped [of inCallWithPeer "''u2''" _ _ _ _ "[IceCandidate ''c1'', IceCandidate ''c2'']"]
    n m c
  show ?thesis by simp
qed

subsection \<open>Starting a call\<close>

text \<open>
  C2, as stated, fails: with call \<open>call-1\<close> active, a second \<open>initiateCall\<close> succeeds
  and the call state now refers to \<open>call-2\<close>.
\<close>

theorem second_call_counterexample:
  "isActive (callState inCall) \<and> callId (callState inCall) = Some ''call-1'' \<and>
   fst (initiateCall True (Some ''call-2'') True [''u3''] Audio inCall) = Inr ''call-2'' \<and>
   callId (callState (snd (initiateCall True (Some ''call-2'') True [''u3''] Audio inCall))) = Some ''call-2''"
  by (simp add: rtc_eval)

text \<open>
  C2, amended. There is no busy check. Whatever the current call state, when the media
  devices are granted, the REST request returns a call id and the signalling socket
  opens, \<open>initiateCall\<close> returns that id and overwrites the call state with the new
  call: its id, \<open>isActive = true\<close>, \<open>isIncoming = false\<close>, the call type and the new local
  stream. \<open>handleIncomingCall\<close> likewise overwrites the call id, the call type and the
  participants and sets \<open>isIncoming\<close>.
\<close>

theorem initiateCall_no_busy_check:
  "fst (initiateCall True (Some cid) True ps ct s) = Inr cid \<and>
   callState (snd (initiateCall True (Some cid) True ps ct s)) =
     (callState s)\<lparr>cs_localStream := Some (if ct = Video then [nextTrack s, Suc (nextTrack s)]
                                             else [nextTrack s]),
                   callId := Some cid, isActive := True, isIncoming := False,
                   callType := ct, isVideoEnabled := (ct = Video)\<rparr> \<and>
   callState (handleIncomingCall cid callerId ct s) =
     (callState s)\<lparr>callId := Some cid, isIncoming := True, callType := ct,
                   isVideoEnabled := (ct = Video),
                   participants := [\<lparr>userId = callerId, stream = None, peerConnection = None,
                                     p_isMuted = None, p_isVideoEnabled = None\<rparr>]\<rparr>"
  by (simp add: initiateCall_def getLocalStream_def getUserMedia_def connectSignaling_def
      updateState_def handleIncomingCall_def Let_def)

subsection \<open>The socket used for sending\<close>

text \<open>
  \<open>sendSignalingMessage\<close> and \<open>cleanup\<close> act on the field \<open>ws\<close>, while
  \<open>connectSignaling\<close> stores the signalling socket in \<open>signalingSocket\<close>. Nothing assigns
  \<open>ws\<close>, so in every state the service can reach it is unset and no message has been
  put on any socket.
\<close>

lemma silent_getLocalStream:
  "rtc_ws (snd (getLocalStream g v s)) = rtc_ws s \<and>
   rtcSockets (snd (getLocalStream g v s)) = rtcSockets s"
  by (simp add: getLocalStream_def getUserMedia_def updateState_def Let_def)

lemma silent_cleanup:
  "rtc_ws s = None \<Longrightarrow> rtc_ws (cleanup s) = None \<and> rtcSockets (cleanup s) = rtcSockets s"
  by (simp add: cleanup_def fold_stop_track fold_close_pc Let_def split: option.splits)

lemma silent_handleSignalingMessage:
  "rtc_ws s = None \<Longrightarrow>
     rtc_ws (handleSignalingMessage sub ans m s) = None \<and>
     rtcSockets (handleSignalingMessage sub ans m s) = rtcSockets s"
  by (simp add: handleSignalingMessage_def handleOffer_def handleAnswer_def handleIceCandidate_def
      handleParticipantMuted_def handleParticipantVideo_def getOrCreatePeerConnection_def
      fold_pc_call pc_call_def updateState_def sendSignalingMessage_def Let_def
      split: option.splits)

lemma svc_step_silent:
  assumes "rtc_ws s = None \<and> (\<forall>i. frames (rtcSockets s i) = [])"
  shows "rtc_ws (svc_step e s) = None \<and> (\<forall>i. frames (rtcSockets (svc_step e s) i) = [])"
proof (cases e)
  case (DoInitiateCall g r opens ps ct)
  with assms show ?thesis
    using silent_getLocalStream [of g "ct = Video" s]
    by (auto simp: initiateCall_def updateState_def connectSignaling_def new_WebSocket_def Let_def
        split: prod.splits sum.splits option.splits)
next
  case (DoJoinCall a g opens cid)
  with assms show ?thesis
    by (auto simp: joinCall_def getLocalStream_def getUserMedia_def updateState_def
        connectSignaling_def new_WebSocket_def Let_def split: prod.splits sum.splits option.splits)
next
  case (DoEndCall a)
  with assms show ?thesis
    using silent_cleanup [of s]
      silent_cleanup [of "s\<lparr>restCalls := restCalls s @ [EndCall (the (callId (callState s)))]\<rparr>"]
    by (auto simp: endCall_def updateState_def Let_def split: option.splits)
next
  case (DoAcceptIncomingCall a g opens cid ct)
  with assms show ?thesis
    by (auto simp: acceptIncomingCall_def joinCall_def getLocalStream_def getUserMedia_def
        updateState_def connectSignaling_def new_WebSocket_def Let_def
        split: prod.splits sum.splits option.splits)
next
  case (DoDeclineIncomingCall a cid)
  with assms show ?thesis
    by (auto simp: declineIncomingCall_def updateState_def Let_def)
next
  case (DoToggleMute sub)
  with assms show ?thesis
    by (auto simp: toggleMute_def updateState_def sendSignalingMessage_def Let_def split: option.splits)
next
  case (DoToggleVideo sub)
  with assms show ?thesis
    by (auto simp: toggleVideo_def updateState_def sendSignalingMessage_def Let_def split: option.splits)
next
  case (DoHandleIncomingCall cid c ct)
  with assms show ?thesis
    by (auto simp: handleIncomingCall_def updateState_def)
next
  case (SignalingMessage i sub ans parsed)
  with assms show ?thesis
    using silent_handleSignalingMessage [of s sub ans]
    by (auto simp: signaling_onmessage_def split: option.splits)
next
  case (SignalingClosed i)
  with assms show ?thesis
    by (auto simp: signaling_onclose_def)
next
  case (RemoteTrack u p r)
  with assms show ?thesis
    by (auto simp: ontrack_def updateState_def Let_def)
next
  case (LocalCandidate sub c)
  with assms show ?thesis
    by (auto simp: onicecandidate_def sendSignalingMessage_def split: option.splits)
qed

lemma svc_run_silent:
  "rtc_ws s = None \<and> (\<forall>i. frames (rtcSockets s i) = []) \<Longrightarrow>
     rtc_ws (svc_run es s) = None \<and> (\<forall>i. frames (rtcSockets (svc_run es s) i) = [])"
proof (induction es arbitrary: s)
  case Nil
  then show ?case by simp
next
  case (Cons e es)
  from Cons.IH [OF svc_step_silent [OF Cons.prems]] show ?case by simp
qed

lemma never_sends:
  "rtc_ws (svc_run es WebRTCService) = None \<and> sent_frames (svc_run es WebRTCService) = []"
proof -
  have "rtc_ws WebRTCService = None \<and> (\<forall>i. frames (rtcSockets WebRTCService i) = [])"
    by (simp add: WebRTCService_def new_WebSocket_def)
  from svc_run_silent [OF this, of es] show ?thesis
    by (simp add: sent_frames_def)
qed

text \<open>
  C5. In a call that was set up without a fault (local audio track enabled, signalling
  socket open), two calls of \<open>toggleMute\<close> bring the mute flag back to its value, but
  the number of mute messages put on the wire is zero, not two.
\<close>

theorem toggleMute_twice_sends_nothing:
  "signalingSocket inCall = Some 0 \<and> readyState (rtcSockets inCall 0) = OPEN \<and>
   isMuted (callState (svc_run [DoToggleMute (Some ''me'')] inCall)) \<and>
   isMuted (callState (svc_run [DoToggleMute (Some ''me''), DoToggleMute (Some ''me'')] inCall)) =
     isMuted (callState inCall) \<and>
   sent_frames (svc_run [DoToggleMute (Some ''me''), DoToggleMute (Some ''me'')] inCall) = []"
  by (simp add: rtc_eval)

text \<open>
  C6. After \<open>endCall\<close> has completed with a successful REST request, the call is inactive
  and the peer connection of \<open>u2\<close> is closed, but the signalling socket is still
  referenced, still open and was never asked to close; an offer from \<open>u3\<close> that arrives
  on it is processed and leaves a new peer connection that is open.
\<close>

theorem signaling_survives_endCall:
  "isActive (callState (endCall True inCallWithPeer)) = False \<and>
   closed (pcs (endCall True inCallWithPeer) 0) \<and>
   signalingSocket (endCall True inCallWithPeer) = Some 0 \<and>
   readyState (rtcSockets (endCall True inCallWithPeer) 0) = OPEN \<and>
   closeCalls (rtcSockets (endCall True inCallWithPeer) 0) = [] \<and>
   peerConnections (svc_run [DoEndCall True, SignalingMessage 0 (Some ''me'') (Some ''ans'') (Some offerU3)]
                      inCallWithPeer) = [(''u3'', 1)] \<and>
   closed (pcs (svc_run [DoEndCall True, SignalingMessage 0 (Some ''me'') (Some ''ans'') (Some offerU3)]
                  inCallWithPeer) 1) = False"
  by (simp add: rtc_eval)

end
